theory Spec2Isabelle
  imports Complex_Main "HOL-Library.Multiset"
begin

section \<open>Equation-region detector (src/parsers/equation\_detector.py)\<close>

text \<open>
  The detector turns a raster image into a list of regions. Everything it does to pixels
  (grey conversion, adaptive threshold, morphological closing, contour tracing, reading an
  image file, text recognition) is done by library calls; those calls are the fields of
  the record \<open>imaging\<close> below and every statement holds for any value of them. What the
  module itself computes, and what is modelled in full, is: the bounding rectangle of a
  contour, the acceptance filter, the reading-order sort, the margin and clipping
  arithmetic, the crop slice, the file name of a saved crop, the capture of a recognition
  failure, the failure of the directory creation, and the load check of the file
  helper. The pixel calls and the writing of a crop are taken to return.

  Numbers. Coordinates are Python integers (\<open>int\<close>). The three float expressions
  \<open>img_w * 0.95\<close>, \<open>w * 0.03\<close>, \<open>h * 0.05\<close> and the quotient \<open>w / (h + 1e-6)\<close> are
  taken over the rationals, with the decimal constants at their written value. For an
  integer operand below \<open>2^48\<close> this is what the double computation yields: where the
  exact product is an integer the rounded double product is that integer, and elsewhere
  it is at least \<open>1/100\<close> away from every integer, which no rounding error reaches, so
  each comparison with an integer and each truncation comes out the same.
\<close>

subsection \<open>Data\<close>

type_synonym point = "int \<times> int"

type_synonym contour = "point list"

type_synonym rect = "int \<times> int \<times> int \<times> int"

text \<open>
  An array of pixels with its shape: \<open>shape0\<close> rows, \<open>shape1\<close> columns, \<open>colour\<close> when
  the array has a third (channel) axis. A pixel is a value of any type.
\<close>

record 'px image =
  shape0 :: nat
  shape1 :: nat
  colour :: bool
  pixels :: "'px list list"

text \<open>
  The dictionary appended for each accepted contour. The keys \<open>saved_path\<close>,
  \<open>tesseract_text\<close> and \<open>ocr_error\<close> are optional: \<open>None\<close> is an absent key.
\<close>

record 'px region =
  bbox :: rect
  crop :: "'px image"
  saved_path :: "string option"
  tesseract_text :: "string option"
  ocr_error :: "string option"

text \<open>
  The exceptions that end a call: \<open>FileNotFoundError\<close> with its message, and any other
  operating-system error of the directory creation.
\<close>

datatype error = FileNotFoundError string | OSError string

text \<open>
  The library calls. \<open>image_to_string\<close> stands for the whole body of the \<open>try\<close> block
  up to the call's return (array conversion, colour conversion, recognition): \<open>Inr txt\<close>
  is the recognised text, \<open>Inl msg\<close> an exception raised there, \<open>msg\<close> its \<open>str\<close>;
  the outcome of a call is a function of the crop it is given.
  \<open>imread\<close> yields \<open>None\<close> for a file it cannot read or decode.
  \<open>makedirs\<close> is \<open>os.makedirs(path, exist_ok=True)\<close>: \<open>None\<close> when the directory
  exists afterwards, \<open>Some e\<close> when the call raises \<open>e\<close>.
\<close>

record 'px imaging =
  cvtColor_gray :: "'px image \<Rightarrow> 'px image"
  adaptiveThreshold :: "'px image \<Rightarrow> 'px image"
  morphologyEx_close :: "nat \<Rightarrow> nat \<Rightarrow> 'px image \<Rightarrow> 'px image"
  findContours :: "'px image \<Rightarrow> contour list"
  image_to_string :: "'px image \<Rightarrow> string + string"
  imread :: "string \<Rightarrow> 'px image option"
  makedirs :: "string \<Rightarrow> error option"

text \<open>
  The effects on the file system: directories created and image files written, in order.
\<close>

record 'px run_state =
  candidates :: "'px region list"
  made_dirs :: "string list"
  written :: "(string \<times> 'px image) list"

subsection \<open>Library arithmetic used by the module\<close>

text \<open>
  The bounding rectangle of a set of integer points: the smallest upright rectangle
  holding them, \<open>(x, y, w, h)\<close> with the width and height counted in pixels; the empty
  rectangle for no points.
\<close>

definition boundingRect :: "contour \<Rightarrow> rect" where
  "boundingRect c =
     (if c = [] then (0, 0, 0, 0)
      else let xs = set (map fst c); ys = set (map snd c)
           in (Min xs, Min ys, Max xs - Min xs + 1, Max ys - Min ys + 1))"

text \<open>Python's \<open>int\<close> of a float: truncation towards zero.\<close>

definition py_int :: "rat \<Rightarrow> int" where
  "py_int q = (if 0 \<le> q then \<lfloor>q\<rfloor> else \<lceil>q\<rceil>)"

text \<open>
  A Python slice \<open>xs[a:b]\<close> of a sequence of length \<open>n\<close>: a negative bound counts from
  the end, and both bounds are clamped to \<open>0..n\<close>.
\<close>

definition slice_bound :: "nat \<Rightarrow> int \<Rightarrow> nat" where
  "slice_bound n a = nat (min (int n) (max 0 (if a < 0 then a + int n else a)))"

definition slice_len :: "nat \<Rightarrow> int \<Rightarrow> int \<Rightarrow> nat" where
  "slice_len n a b = slice_bound n b - slice_bound n a"

definition py_slice :: "int \<Rightarrow> int \<Rightarrow> 'a list \<Rightarrow> 'a list" where
  "py_slice a b xs =
     take (slice_len (length xs) a b) (drop (slice_bound (length xs) a) xs)"

text \<open>
  \<open>str.strip()\<close>: the white-space characters at both ends removed. A text is the list
  of the bytes of its UTF-8 encoding, and \<open>white_space\<close> lists the encodings of the
  characters that Python counts as white space: U+0009 to U+000D, U+001C to U+0020,
  U+0085, U+00A0, U+1680, U+2000 to U+200A, U+2028, U+2029, U+202F, U+205F, U+3000.
\<close>

definition white_space :: "string list" where
  "white_space =
     [[CHR 0x09], [CHR 0x0A], [CHR 0x0B], [CHR 0x0C], [CHR 0x0D],
      [CHR 0x1C], [CHR 0x1D], [CHR 0x1E], [CHR 0x1F], [CHR 0x20],
      [CHR 0xC2, CHR 0x85], [CHR 0xC2, CHR 0xA0], [CHR 0xE1, CHR 0x9A, CHR 0x80],
      [CHR 0xE2, CHR 0x80, CHR 0x80], [CHR 0xE2, CHR 0x80, CHR 0x81],
      [CHR 0xE2, CHR 0x80, CHR 0x82], [CHR 0xE2, CHR 0x80, CHR 0x83],
      [CHR 0xE2, CHR 0x80, CHR 0x84], [CHR 0xE2, CHR 0x80, CHR 0x85],
      [CHR 0xE2, CHR 0x80, CHR 0x86], [CHR 0xE2, CHR 0x80, CHR 0x87],
      [CHR 0xE2, CHR 0x80, CHR 0x88], [CHR 0xE2, CHR 0x80, CHR 0x89],
      [CHR 0xE2, CHR 0x80, CHR 0x8A], [CHR 0xE2, CHR 0x80, CHR 0xA8],
      [CHR 0xE2, CHR 0x80, CHR 0xA9], [CHR 0xE2, CHR 0x80, CHR 0xAF],
      [CHR 0xE2, CHR 0x81, CHR 0x9F], [CHR 0xE3, CHR 0x80, CHR 0x80]]"

text \<open>Dropping, from the front of a text, every leading occurrence of one of the patterns.\<close>

function strip_left :: "string list \<Rightarrow> string \<Rightarrow> string" where
  "strip_left ws s =
     (case find (\<lambda>w. w \<noteq> [] \<and> take (length w) s = w) ws of
        None \<Rightarrow> s
      | Some w \<Rightarrow> strip_left ws (drop (length w) s))"
  by pat_completeness auto
termination
proof (relation "measure (\<lambda>(ws, s). length s)")
  show "wf (measure (\<lambda>(ws, s). length s))" by simp
next
  fix ws :: "string list" and s w :: string
  assume "find (\<lambda>w. w \<noteq> [] \<and> take (length w) s = w) ws = Some w"
  then have w: "w \<noteq> []" "take (length w) s = w"
    by (auto simp: find_Some_iff)
  from w(2) have "length (take (length w) s) = length w" by simp
  then have "length w \<le> length s" by simp
  with w(1) show "((ws, drop (length w) s), (ws, s)) \<in> measure (\<lambda>(ws, s). length s)"
    by (cases w) auto
qed

declare strip_left.simps [simp del]

definition strip :: "string \<Rightarrow> string" where
  "strip s = rev (strip_left (map rev white_space) (rev (strip_left white_space s)))"

text \<open>The format \<open>eq_{idx:03d}.png\<close>: the index in decimal, at least three digits.\<close>

fun decimal :: "nat \<Rightarrow> string" where
  "decimal n =
     (if n < 10 then [char_of (48 + n)]
      else decimal (n div 10) @ [char_of (48 + n mod 10)])"

definition crop_name :: "nat \<Rightarrow> string" where
  "crop_name idx =
     ''eq_'' @ replicate (3 - length (decimal idx)) (CHR ''0'') @ decimal idx @ ''.png''"

text \<open>\<open>os.path.join\<close> of two parts (POSIX).\<close>

definition path_join :: "string \<Rightarrow> string \<Rightarrow> string" where
  "path_join a b =
     (if b \<noteq> [] \<and> hd b = CHR ''/'' then b
      else if a = [] \<or> last a = CHR ''/'' then a @ b
      else a @ ''/'' @ b)"

subsection \<open>The directory of the crops\<close>

definition ensure_dir :: "'px imaging \<Rightarrow> string \<Rightarrow> error option" where
  "ensure_dir lib path = makedirs lib path"

subsection \<open>The pixel stages\<close>

definition to_gray :: "'px imaging \<Rightarrow> 'px image \<Rightarrow> 'px image" where
  "to_gray lib img = (if colour img then cvtColor_gray lib img else img)"

definition binarize :: "'px imaging \<Rightarrow> 'px image \<Rightarrow> 'px image" where
  "binarize lib gray = adaptiveThreshold lib gray"

definition morph_close :: "'px imaging \<Rightarrow> 'px image \<Rightarrow> nat \<Rightarrow> nat \<Rightarrow> 'px image" where
  "morph_close lib bin_img kx ky = morphologyEx_close lib kx ky bin_img"

definition find_candidate_contours :: "'px imaging \<Rightarrow> 'px image \<Rightarrow> contour list" where
  "find_candidate_contours lib mask_img = findContours lib mask_img"

subsection \<open>The acceptance filter\<close>

text \<open>The four conditions of \<open>_is_equation_like\<close>, each under the name of its rule.\<close>

definition area_too_small :: "int \<Rightarrow> int \<Rightarrow> bool" where
  "area_too_small w h = (w * h < 400)"

definition full_page_box :: "int \<Rightarrow> int \<Rightarrow> nat \<times> nat \<Rightarrow> bool" where
  "full_page_box w h img_shape =
     (case img_shape of (img_h, img_w) \<Rightarrow>
        rat_of_int w > rat_of_nat img_w * (95 / 100) \<and>
        rat_of_int h > rat_of_nat img_h * (95 / 100))"

definition aspect_ratio :: "int \<Rightarrow> int \<Rightarrow> rat" where
  "aspect_ratio w h = rat_of_int w / (rat_of_int h + 1 / 1000000)"

definition aspect_out_of_range :: "rat \<Rightarrow> bool" where
  "aspect_out_of_range ar = (ar < 2 / 10 \<and> ar > 10)"

definition too_thin :: "int \<Rightarrow> int \<Rightarrow> bool" where
  "too_thin w h = (h < 10 \<or> w < 10)"

definition is_equation_like :: "contour \<Rightarrow> nat \<times> nat \<Rightarrow> bool" where
  "is_equation_like contour img_shape =
     (case boundingRect contour of (x, y, w, h) \<Rightarrow>
        if area_too_small w h then False
        else if full_page_box w h img_shape then False
        else if aspect_out_of_range (aspect_ratio w h) then False
        else if too_thin w h then False
        else True)"

text \<open>
  The comparison filter of the first claim: the same function with the aspect-ratio
  branch taken out. It is not part of the source.
\<close>

definition is_equation_like_no_aspect :: "contour \<Rightarrow> nat \<times> nat \<Rightarrow> bool" where
  "is_equation_like_no_aspect contour img_shape =
     (case boundingRect contour of (x, y, w, h) \<Rightarrow>
        if area_too_small w h then False
        else if full_page_box w h img_shape then False
        else if too_thin w h then False
        else True)"

subsection \<open>Finalising one accepted contour\<close>

definition img_shape_of :: "'px image \<Rightarrow> nat \<times> nat" where
  "img_shape_of img = (shape0 img, shape1 img)"

definition margin_x :: "int \<Rightarrow> int" where
  "margin_x w = py_int (rat_of_int w * (3 / 100))"

definition margin_y :: "int \<Rightarrow> int" where
  "margin_y h = py_int (rat_of_int h * (5 / 100))"

text \<open>The corners \<open>(x0, y0, x1, y1)\<close> after the margin and the clip to the image.\<close>

definition clipped_corners :: "'px image \<Rightarrow> contour \<Rightarrow> int \<times> int \<times> int \<times> int" where
  "clipped_corners img c =
     (case boundingRect c of (x, y, w, h) \<Rightarrow>
        let x0 = max 0 (x - margin_x w);
            y0 = max 0 (y - margin_y h);
            x1 = min (int (shape1 img)) (x + w + margin_x w);
            y1 = min (int (shape0 img)) (y + h + margin_y h)
        in (x0, y0, x1, y1))"

definition final_bbox :: "'px image \<Rightarrow> contour \<Rightarrow> rect" where
  "final_bbox img c =
     (case clipped_corners img c of (x0, y0, x1, y1) \<Rightarrow> (x0, y0, x1 - x0, y1 - y0))"

text \<open>\<open>img[y0:y1, x0:x1].copy()\<close>: a new array holding the rows and columns of the slice.\<close>

definition crop_of :: "'px image \<Rightarrow> contour \<Rightarrow> 'px image" where
  "crop_of img c =
     (case clipped_corners img c of (x0, y0, x1, y1) \<Rightarrow>
        \<lparr>shape0 = slice_len (shape0 img) y0 y1,
         shape1 = slice_len (shape1 img) x0 x1,
         colour = colour img,
         pixels = map (py_slice x0 x1) (py_slice y0 y1 (pixels img))\<rparr>)"

text \<open>
  The entry built in one pass of the loop body, for the contour \<open>c\<close> at position \<open>idx\<close>
  of the sorted contours.
\<close>

definition make_entry ::
  "'px imaging \<Rightarrow> 'px image \<Rightarrow> bool \<Rightarrow> string \<Rightarrow> bool \<Rightarrow> nat \<Rightarrow> contour \<Rightarrow> 'px region" where
  "make_entry lib img save_crops out_dir ocr idx c =
     (let entry = \<lparr>bbox = final_bbox img c, crop = crop_of img c,
                    saved_path = None, tesseract_text = None, ocr_error = None\<rparr>;
          entry = (if save_crops
                   then entry\<lparr>saved_path := Some (path_join out_dir (crop_name idx))\<rparr>
                   else entry)
      in if ocr
         then (case image_to_string lib (crop_of img c) of
                 Inr txt \<Rightarrow> entry\<lparr>tesseract_text := Some (strip txt)\<rparr>
               | Inl msg \<Rightarrow> entry\<lparr>tesseract_text := Some [], ocr_error := Some msg\<rparr>)
         else entry)"

subsection \<open>The detection loop\<close>

text \<open>
  The \<open>for idx, c in enumerate(contours)\<close> loop, over the pairs \<open>(idx, c)\<close>. The filter
  is an argument so that the loop can also be run with the comparison filter; the
  detector runs it with \<open>is_equation_like\<close>.
\<close>

fun detect_loop ::
  "'px imaging \<Rightarrow> (contour \<Rightarrow> bool) \<Rightarrow> 'px image \<Rightarrow> bool \<Rightarrow> string \<Rightarrow> bool \<Rightarrow>
   (nat \<times> contour) list \<Rightarrow> 'px run_state \<Rightarrow> 'px run_state" where
  "detect_loop lib accept img save_crops out_dir ocr [] st = st"
| "detect_loop lib accept img save_crops out_dir ocr ((idx, c) # rest) st =
     (if \<not> accept c then detect_loop lib accept img save_crops out_dir ocr rest st
      else
        let entry = make_entry lib img save_crops out_dir ocr idx c;
            st = (if save_crops
                  then st\<lparr>written := written st @
                         [(path_join out_dir (crop_name idx), crop_of img c)]\<rparr>
                  else st);
            st = st\<lparr>candidates := candidates st @ [entry]\<rparr>
        in detect_loop lib accept img save_crops out_dir ocr rest st)"

text \<open>The contours of the closed mask, as found, and the key they are sorted by.\<close>

definition candidate_contours :: "'px imaging \<Rightarrow> 'px image \<Rightarrow> contour list" where
  "candidate_contours lib img =
     (let gray = to_gray lib img;
          bin_img = binarize lib gray;
          closed = morph_close lib bin_img 25 3
      in find_candidate_contours lib closed)"

definition reading_key :: "'px image \<Rightarrow> contour \<Rightarrow> int" where
  "reading_key img c =
     (case boundingRect c of (x, y, w, h) \<Rightarrow> y * int (shape1 img) + x)"

text \<open>
  The call from its second statement on, the directory of the crops being there when
  crops are saved.
\<close>

definition detect_run ::
  "(contour \<Rightarrow> bool) \<Rightarrow> 'px imaging \<Rightarrow> 'px image \<Rightarrow> bool \<Rightarrow> string \<Rightarrow> bool \<Rightarrow> 'px run_state" where
  "detect_run accept lib img save_crops out_dir ocr =
     (let st = \<lparr>candidates = [], made_dirs = (if save_crops then [out_dir] else []),
                 written = []\<rparr>;
          contours = candidate_contours lib img;
          contours = sort_key (reading_key img) contours
      in detect_loop lib accept img save_crops out_dir ocr (enumerate 0 contours) st)"

text \<open>The list the call returns, when it returns.\<close>

definition detect_equations_in_image ::
  "'px imaging \<Rightarrow> 'px image \<Rightarrow> bool \<Rightarrow> string \<Rightarrow> bool \<Rightarrow> 'px region list" where
  "detect_equations_in_image lib img save_crops out_dir ocr =
     candidates (detect_run (\<lambda>c. is_equation_like c (img_shape_of img))
                   lib img save_crops out_dir ocr)"

text \<open>The detector run with the comparison filter (not part of the source).\<close>

definition detect_equations_no_aspect ::
  "'px imaging \<Rightarrow> 'px image \<Rightarrow> bool \<Rightarrow> string \<Rightarrow> bool \<Rightarrow> 'px region list" where
  "detect_equations_no_aspect lib img save_crops out_dir ocr =
     candidates (detect_run (\<lambda>c. is_equation_like_no_aspect c (img_shape_of img))
                   lib img save_crops out_dir ocr)"

text \<open>
  The outcome of the call: its first statement creates the directory when crops are
  saved, and an exception raised there ends the call before anything is detected.
\<close>

definition detect_equations_in_image_outcome ::
  "'px imaging \<Rightarrow> 'px image \<Rightarrow> bool \<Rightarrow> string \<Rightarrow> bool \<Rightarrow> error + 'px region list" where
  "detect_equations_in_image_outcome lib img save_crops out_dir ocr =
     (case (if save_crops then ensure_dir lib out_dir else None) of
        Some e \<Rightarrow> Inl e
      | None \<Rightarrow> Inr (detect_equations_in_image lib img save_crops out_dir ocr))"

definition detect_equations_from_pdf_page_image ::
  "'px imaging \<Rightarrow> string \<Rightarrow> bool \<Rightarrow> string \<Rightarrow> bool \<Rightarrow> error + 'px region list" where
  "detect_equations_from_pdf_page_image lib page_image_path save_crops out_dir ocr =
     (case imread lib page_image_path of
        None \<Rightarrow> Inl (FileNotFoundError (''Could not load image: '' @ page_image_path))
      | Some img \<Rightarrow> detect_equations_in_image_outcome lib img save_crops out_dir ocr)"

subsection \<open>Notions the statements use\<close>

text \<open>The accepted contours in the order the loop meets them.\<close>

definition accepted_contours :: "'px imaging \<Rightarrow> 'px image \<Rightarrow> contour list" where
  "accepted_contours lib img =
     filter (\<lambda>c. is_equation_like c (img_shape_of img))
       (sort_key (reading_key img) (candidate_contours lib img))"

definition rect_in_image :: "'px image \<Rightarrow> rect \<Rightarrow> bool" where
  "rect_in_image img r =
     (case r of (x, y, w, h) \<Rightarrow>
        0 \<le> x \<and> 0 \<le> y \<and> x + w \<le> int (shape1 img) \<and> y + h \<le> int (shape0 img))"

definition rect_positive :: "rect \<Rightarrow> bool" where
  "rect_positive r = (case r of (x, y, w, h) \<Rightarrow> 0 < w \<and> 0 < h)"

definition rect_contains :: "rect \<Rightarrow> rect \<Rightarrow> bool" where
  "rect_contains outer inner =
     (case outer of (x0, y0, w', h') \<Rightarrow> case inner of (x, y, w, h) \<Rightarrow>
        x0 \<le> x \<and> y0 \<le> y \<and> x + w \<le> x0 + w' \<and> y + h \<le> y0 + h')"

definition rects_overlap :: "rect \<Rightarrow> rect \<Rightarrow> bool" where
  "rects_overlap a b =
     (case a of (ax, ay, aw, ah) \<Rightarrow> case b of (bx, by, bw, bh) \<Rightarrow>
        ax < bx + bw \<and> bx < ax + aw \<and> ay < by + bh \<and> by < ay + ah)"


definition top_left :: "contour \<Rightarrow> int \<times> int" where
  "top_left c = (case boundingRect c of (x, y, w, h) \<Rightarrow> (x, y))"

text \<open>
  Two contours are margin-separated when, along one axis, the rectangle of one ends
  before the rectangle of the other begins, with both margins in between.
\<close>

definition margin_separated :: "contour \<Rightarrow> contour \<Rightarrow> bool" where
  "margin_separated a b =
     (case boundingRect a of (ax, ay, aw, ah) \<Rightarrow> case boundingRect b of (bx, by, bw, bh) \<Rightarrow>
        ax + aw + margin_x aw \<le> bx - margin_x bw \<or>
        bx + bw + margin_x bw \<le> ax - margin_x aw \<or>
        ay + ah + margin_y ah \<le> by - margin_y bh \<or>
        by + bh + margin_y bh \<le> ay - margin_y ah)"

subsection \<open>Concrete inputs\<close>

text \<open>
  A 400 by 400 single-channel page, and library calls that find a given list of contours
  on every image, recognise text as a given function says, can read one file, and can
  create every directory but the one of the empty path. The
  contours found are fixed by the library calls, not by the pixels of the page: the
  detector reads the pixels only to cut the crops.
\<close>

definition page :: "nat image" where
  "page = \<lparr>shape0 = 400, shape1 = 400, colour = False,
            pixels = replicate 400 (replicate 400 255)\<rparr>"

definition no_such_directory :: string where
  "no_such_directory = ''[Errno 2] No such file or directory: '' @ [CHR 0x27, CHR 0x27]"

definition stub_imaging :: "contour list \<Rightarrow> (nat image \<Rightarrow> string + string) \<Rightarrow> nat imaging" where
  "stub_imaging cs recognise =
     \<lparr>cvtColor_gray = (\<lambda>i. i), adaptiveThreshold = (\<lambda>i. i),
      morphologyEx_close = (\<lambda>kx ky i. i), findContours = (\<lambda>i. cs),
      image_to_string = recognise,
      imread = (\<lambda>p. if p = ''page.png'' then Some page else None),
      makedirs = (\<lambda>d. if d = [] then Some (FileNotFoundError no_such_directory)
                       else None)\<rparr>"

text \<open>
  Outlines of solid blocks, by their corners: \<open>block_top\<close> covers columns 20..119 of rows
  20..119, \<open>block_below\<close> the same columns of rows 124..223 (four rows further down),
  \<open>block_wide\<close> columns 200..339 of rows 124..223.
\<close>

definition block_top :: contour where
  "block_top = [(20, 20), (20, 119), (119, 119), (119, 20)]"

definition block_below :: contour where
  "block_below = [(20, 124), (20, 223), (119, 223), (119, 124)]"

definition block_wide :: contour where
  "block_wide = [(200, 124), (200, 223), (339, 223), (339, 124)]"

text \<open>
  Two parallel one-pixel diagonal strokes, by their end points. They have no pixel in
  common and lie 50 columns apart, and the rectangle of each starts at \<open>(10, 10)\<close>.
\<close>

definition stroke_short :: contour where
  "stroke_short = [(60, 10), (10, 60)]"

definition stroke_long :: contour where
  "stroke_long = [(110, 10), (10, 110)]"

text \<open>A recogniser that fails on crops 106 columns wide and reads every other crop.\<close>

definition flaky_recogniser :: "nat image \<Rightarrow> string + string" where
  "flaky_recogniser cr =
     (if shape1 cr = 106 then Inl ''engine failure'' else Inr '' x = 1 '')"

section \<open>Properties\<close>

subsection \<open>The loop as a filter and a map\<close>

lemma detect_loop_candidates:
  "candidates (detect_loop lib accept img sc od ocr xs st) =
     candidates st @ map (\<lambda>(idx, c). make_entry lib img sc od ocr idx c)
                       (filter (\<lambda>(idx, c). accept c) xs)"
  by (induction xs arbitrary: st) (auto simp: Let_def)

lemma filter_enumerate:
  "map snd (filter (\<lambda>(idx, c). P c) (enumerate n xs)) = filter P xs"
  by (induction xs arbitrary: n) auto

lemma detect_regions:
  "detect_equations_in_image lib img sc od ocr =
     map (\<lambda>(idx, c). make_entry lib img sc od ocr idx c)
       (filter (\<lambda>(idx, c). is_equation_like c (img_shape_of img))
          (enumerate 0 (sort_key (reading_key img) (candidate_contours lib img))))"
  by (simp add: detect_equations_in_image_def detect_run_def detect_loop_candidates)

text \<open>Every accepted contour has its region, in order, built by the loop body.\<close>

lemma detect_entries:
  "list_all2 (\<lambda>r c. \<exists>idx. r = make_entry lib img sc od ocr idx c)
     (detect_equations_in_image lib img sc od ocr) (accepted_contours lib img)"
proof -
  let ?zs = "filter (\<lambda>(idx, c). is_equation_like c (img_shape_of img))
               (enumerate 0 (sort_key (reading_key img) (candidate_contours lib img)))"
  have acc: "accepted_contours lib img = map snd ?zs"
    by (simp only: filter_enumerate accepted_contours_def)
  have "list_all2 (\<lambda>z z'. \<exists>idx. (case z of (i, c) \<Rightarrow> make_entry lib img sc od ocr i c)
                              = make_entry lib img sc od ocr idx (snd z')) ?zs ?zs"
    by (rule list_all2_same[THEN iffD2]) auto
  then show ?thesis
    unfolding detect_regions acc by (simp add: list_all2_map1 list_all2_map2)
qed

lemma bbox_make_entry: "bbox (make_entry lib img sc od ocr idx c) = final_bbox img c"
  by (simp add: make_entry_def Let_def split: sum.splits)

lemma crop_make_entry: "crop (make_entry lib img sc od ocr idx c) = crop_of img c"
  by (simp add: make_entry_def Let_def split: sum.splits)

lemma detect_bboxes:
  "map bbox (detect_equations_in_image lib img sc od ocr) =
     map (final_bbox img) (accepted_contours lib img)"
proof -
  have "list_all2 (\<lambda>r c. bbox r = final_bbox img c)
          (detect_equations_in_image lib img sc od ocr) (accepted_contours lib img)"
    using detect_entries[of lib img sc od ocr]
    by (rule list_all2_mono) (auto simp: bbox_make_entry)
  then have "list_all2 (=) (map bbox (detect_equations_in_image lib img sc od ocr))
               (map (final_bbox img) (accepted_contours lib img))"
    by (simp add: list_all2_map1 list_all2_map2)
  then show ?thesis by (simp add: list_all2_eq)
qed

lemma detect_length:
  "length (detect_equations_in_image lib img sc od ocr) = length (accepted_contours lib img)"
  using detect_entries[of lib img sc od ocr] by (rule list_all2_lengthD)

lemma detect_bbox_nth:
  assumes "i < length (accepted_contours lib img)"
  shows "bbox (detect_equations_in_image lib img sc od ocr ! i) =
           final_bbox img (accepted_contours lib img ! i)"
proof -
  have "bbox (detect_equations_in_image lib img sc od ocr ! i) =
          map bbox (detect_equations_in_image lib img sc od ocr) ! i"
    using assms by (simp add: detect_length)
  also have "\<dots> = final_bbox img (accepted_contours lib img ! i)"
    using assms by (simp add: detect_bboxes)
  finally show ?thesis .
qed

lemma set_accepted:
  "c \<in> set (accepted_contours lib img) \<longleftrightarrow>
     c \<in> set (candidate_contours lib img) \<and> is_equation_like c (img_shape_of img)"
  by (simp add: accepted_contours_def)

subsection \<open>Margins and clipping\<close>

lemma py_int_nonneg: "0 \<le> q \<Longrightarrow> 0 \<le> py_int q"
  by (simp add: py_int_def)

lemma margin_x_nonneg: "0 \<le> w \<Longrightarrow> 0 \<le> margin_x w"
  by (simp add: margin_x_def py_int_nonneg)

lemma margin_y_nonneg: "0 \<le> h \<Longrightarrow> 0 \<le> margin_y h"
  by (simp add: margin_y_def py_int_nonneg)

lemma margin_x_div: "0 \<le> w \<Longrightarrow> margin_x w = 3 * w div 100"
proof -
  assume w: "0 \<le> w"
  have "rat_of_int w * (3 / 100) = rat_of_int (3 * w) / rat_of_int 100" by simp
  then have "\<lfloor>rat_of_int w * (3 / 100)\<rfloor> = 3 * w div 100"
    by (simp only: floor_divide_of_int_eq)
  with w show ?thesis by (simp add: margin_x_def py_int_def)
qed

lemma margin_y_div: "0 \<le> h \<Longrightarrow> margin_y h = h div 20"
proof -
  assume h: "0 \<le> h"
  have "rat_of_int h * (5 / 100) = rat_of_int h / rat_of_int 20" by simp
  then have "\<lfloor>rat_of_int h * (5 / 100)\<rfloor> = h div 20"
    by (simp only: floor_divide_of_int_eq)
  with h show ?thesis by (simp add: margin_y_def py_int_def)
qed

lemma accepted_sizes:
  assumes "is_equation_like c s" "boundingRect c = (x, y, w, h)"
  shows "10 \<le> w \<and> 10 \<le> h"
  using assms by (auto simp: is_equation_like_def too_thin_def split: if_splits)

lemma final_bbox_in_image:
  assumes acc: "is_equation_like c (img_shape_of img)"
    and inside: "rect_in_image img (boundingRect c)"
  shows "rect_in_image img (final_bbox img c) \<and> rect_positive (final_bbox img c)"
proof -
  obtain x y w h where br: "boundingRect c = (x, y, w, h)"
    by (cases "boundingRect c") auto
  from accepted_sizes[OF acc br] have wh: "10 \<le> w" "10 \<le> h" by auto
  then have m: "0 \<le> margin_x w" "0 \<le> margin_y h"
    by (simp_all add: margin_x_nonneg margin_y_nonneg)
  from inside br have i: "0 \<le> x" "0 \<le> y" "x + w \<le> int (shape1 img)" "y + h \<le> int (shape0 img)"
    by (simp_all add: rect_in_image_def)
  show ?thesis
    using wh m i
    by (simp add: final_bbox_def clipped_corners_def br rect_in_image_def rect_positive_def Let_def)
qed

lemma final_bbox_contains:
  assumes acc: "is_equation_like c (img_shape_of img)"
    and inside: "rect_in_image img (boundingRect c)"
  shows "rect_contains (final_bbox img c) (boundingRect c)"
proof -
  obtain x y w h where br: "boundingRect c = (x, y, w, h)"
    by (cases "boundingRect c") auto
  from accepted_sizes[OF acc br] have wh: "10 \<le> w" "10 \<le> h" by auto
  then have m: "0 \<le> margin_x w" "0 \<le> margin_y h"
    by (simp_all add: margin_x_nonneg margin_y_nonneg)
  from inside br have i: "0 \<le> x" "0 \<le> y" "x + w \<le> int (shape1 img)" "y + h \<le> int (shape0 img)"
    by (simp_all add: rect_in_image_def)
  show ?thesis
    using wh m i
    by (simp add: final_bbox_def clipped_corners_def br rect_contains_def Let_def)
qed

lemma separated_no_overlap:
  assumes "margin_separated a b"
  shows "\<not> rects_overlap (final_bbox img a) (final_bbox img b)"
proof -
  obtain ax ay aw ah where a: "boundingRect a = (ax, ay, aw, ah)"
    by (cases "boundingRect a") auto
  obtain bx "by" bw bh where b: "boundingRect b = (bx, by, bw, bh)"
    by (cases "boundingRect b") auto
  from assms show ?thesis
    by (auto simp: margin_separated_def rects_overlap_def final_bbox_def
        clipped_corners_def a b Let_def)
qed

subsection \<open>Evaluation on the concrete inputs\<close>

lemma stub_candidates: "candidate_contours (stub_imaging cs recognise) img = cs"
  by (simp add: candidate_contours_def stub_imaging_def to_gray_def binarize_def
      morph_close_def find_candidate_contours_def)

lemma block_rects:
  "boundingRect block_top = (20, 20, 100, 100)"
  "boundingRect block_below = (20, 124, 100, 100)"
  "boundingRect block_wide = (200, 124, 140, 100)"
  by (simp_all add: boundingRect_def block_top_def block_below_def block_wide_def)

lemma stroke_rects:
  "boundingRect stroke_short = (10, 10, 51, 51)"
  "boundingRect stroke_long = (10, 10, 101, 101)"
  by (simp_all add: boundingRect_def stroke_short_def stroke_long_def)

lemma margins_eval:
  "margin_x 100 = 3" "margin_y 100 = 5" "margin_x 140 = 4"
  "margin_x 51 = 1" "margin_y 51 = 2" "margin_x 101 = 3" "margin_y 101 = 5"
  by (simp_all add: margin_x_div margin_y_div)

lemma page_shape: "shape0 page = 400" "shape1 page = 400" "img_shape_of page = (400, 400)"
  by (simp_all add: page_def img_shape_of_def)

lemma blocks_like:
  "is_equation_like block_top (400, 400)"
  "is_equation_like block_below (400, 400)"
  "is_equation_like block_wide (400, 400)"
  "is_equation_like stroke_short (400, 400)"
  "is_equation_like stroke_long (400, 400)"
  by (simp_all add: is_equation_like_def block_rects stroke_rects area_too_small_def
      full_page_box_def aspect_out_of_range_def too_thin_def)

lemma stacked_accepted:
  "accepted_contours (stub_imaging [block_below, block_top] recognise) page =
     [block_top, block_below]"
  by (simp add: accepted_contours_def stub_candidates reading_key_def block_rects
      page_shape blocks_like)

lemma side_accepted:
  "accepted_contours (stub_imaging [block_top, block_wide] recognise) page =
     [block_top, block_wide]"
  by (simp add: accepted_contours_def stub_candidates reading_key_def block_rects
      page_shape blocks_like)

lemma strokes_accepted:
  "accepted_contours (stub_imaging [stroke_long, stroke_short] recognise) page =
     [stroke_long, stroke_short]"
  by (simp add: accepted_contours_def stub_candidates reading_key_def stroke_rects
      page_shape blocks_like)

lemma final_bbox_eval:
  "final_bbox page block_top = (17, 15, 106, 110)"
  "final_bbox page block_below = (17, 119, 106, 110)"
  "final_bbox page block_wide = (196, 119, 148, 110)"
  by (simp_all add: final_bbox_def clipped_corners_def block_rects margins_eval page_shape)


lemma crop_widths:
  "shape1 (crop_of page block_top) = 106"
  "shape1 (crop_of page block_wide) = 148"
  by (simp_all add: crop_of_def clipped_corners_def block_rects margins_eval page_shape
      slice_len_def slice_bound_def)

lemma strip_eval:
  "strip '' x = 1 '' = ''x = 1''"
  "strip ([CHR 0xC2, CHR 0xA0] @ ''x = 1'' @ [CHR 0xC2, CHR 0x85]) = ''x = 1''"
  by (simp_all add: strip_def white_space_def strip_left.simps)

lemma aspect_never: "\<not> aspect_out_of_range q"
  by (simp add: aspect_out_of_range_def)

lemma filter_three_rules:
  assumes "boundingRect c = (x, y, w, h)"
  shows "is_equation_like c s \<longleftrightarrow>
           \<not> area_too_small w h \<and> \<not> full_page_box w h s \<and> \<not> too_thin w h"
  using assms by (simp add: is_equation_like_def aspect_never)

lemma above_95: "rat_of_nat n * (95 / 100) < rat_of_int k \<longleftrightarrow> 95 * int n < 100 * k"
proof -
  have "rat_of_nat n * (95 / 100) < rat_of_int k \<longleftrightarrow>
        rat_of_int (95 * int n) < rat_of_int (100 * k)"
    by (simp add: field_simps)
  then show ?thesis by (simp only: of_int_less_iff)
qed

subsection \<open>The reading order\<close>

lemma accepted_sorted: "sorted (map (reading_key img) (accepted_contours lib img))"
proof -
  have "sorted_wrt (\<lambda>a b. reading_key img a \<le> reading_key img b)
          (sort_key (reading_key img) (candidate_contours lib img))"
    using sorted_sort_key[of "reading_key img" "candidate_contours lib img"]
    by (simp add: sorted_map)
  then show ?thesis
    unfolding accepted_contours_def by (simp add: sorted_map sorted_wrt_filter)
qed

lemma key_corner:
  fixes x y x' y' W :: int
  assumes "0 \<le> x" "x < W" "0 \<le> x'" "x' < W" "y * W + x = y' * W + x'"
  shows "x = x' \<and> y = y'"
proof -
  have "x = (y * W + x) mod W" using assms(1,2) by simp
  also have "\<dots> = (y' * W + x') mod W" by (simp only: assms(5))
  also have "\<dots> = x'" using assms(3,4) by simp
  finally have x: "x = x'" .
  have "y = (y * W + x) div W" using assms(1,2) by simp
  also have "\<dots> = (y' * W + x') div W" by (simp only: assms(5))
  also have "\<dots> = y'" using assms(3,4) by simp
  finally have "y = y'" .
  with x show ?thesis by simp
qed

lemma key_top_left:
  assumes "is_equation_like a (img_shape_of img)" "is_equation_like b (img_shape_of img)"
    and "rect_in_image img (boundingRect a)" "rect_in_image img (boundingRect b)"
    and "reading_key img a = reading_key img b"
  shows "top_left a = top_left b"
proof -
  obtain ax ay aw ah where a: "boundingRect a = (ax, ay, aw, ah)"
    by (cases "boundingRect a") auto
  obtain bx "by" bw bh where b: "boundingRect b = (bx, by, bw, bh)"
    by (cases "boundingRect b") auto
  from accepted_sizes[OF assms(1) a] accepted_sizes[OF assms(2) b]
  have sz: "10 \<le> aw" "10 \<le> bw" by auto
  from assms(3,4) sz have "0 \<le> ax" "ax < int (shape1 img)" "0 \<le> bx" "bx < int (shape1 img)"
    by (simp_all add: rect_in_image_def a b)
  moreover from assms(5) have "ay * int (shape1 img) + ax = by * int (shape1 img) + bx"
    by (simp add: reading_key_def a b)
  ultimately have "ax = bx \<and> ay = by" by (rule key_corner)
  then show ?thesis by (simp add: top_left_def a b)
qed

section \<open>The claims\<close>

text \<open>
  C1. The aspect-ratio condition of the filter, \<open>ratio < 0.2\<close> and \<open>ratio > 10\<close>, holds for
  no ratio, so it rejects no contour: the filter equals the filter without that branch,
  and the detector returns what the detector without that branch returns.
\<close>

theorem aspect_branch_is_dead:
  "\<not> aspect_out_of_range ar \<and>
   is_equation_like c s = is_equation_like_no_aspect c s \<and>
   detect_equations_in_image lib img save_crops out_dir ocr =
     detect_equations_no_aspect lib img save_crops out_dir ocr"
proof -
  have dead: "\<not> aspect_out_of_range q" for q
    by (simp add: aspect_out_of_range_def)
  have same: "is_equation_like k t = is_equation_like_no_aspect k t" for k t
    by (simp add: is_equation_like_def is_equation_like_no_aspect_def dead
        split: prod.splits)
  have "(\<lambda>k. is_equation_like k (img_shape_of img)) =
        (\<lambda>k. is_equation_like_no_aspect k (img_shape_of img))"
    by (rule ext) (rule same)
  then show ?thesis
    by (simp add: dead same detect_equations_in_image_def detect_equations_no_aspect_def)
qed

text \<open>
  C2 (as stated, refuted). The boxes of the regions of one call need not be disjoint:
  two blocks four rows apart are both accepted, each grows by a margin of five rows,
  and the two final boxes share rows 119 to 124.
\<close>

theorem regions_overlap_counterexample:
  "map bbox (detect_equations_in_image (stub_imaging [block_below, block_top] flaky_recogniser)
               page False [] False)
     = [(17, 15, 106, 110), (17, 119, 106, 110)] \<and>
   rects_overlap (17, 15, 106, 110) (17, 119, 106, 110)"
  unfolding detect_bboxes stacked_accepted
  by (simp add: final_bbox_eval rects_overlap_def)

text \<open>
  C2 (amended). Two regions of one call have disjoint boxes whenever the rectangles of
  their contours are margin-separated: apart, along one axis, by at least the sum of
  their two margins.
\<close>

theorem separated_regions_disjoint:
  assumes "i < length (accepted_contours lib img)"
    and "j < length (accepted_contours lib img)"
    and "margin_separated (accepted_contours lib img ! i) (accepted_contours lib img ! j)"
  shows "\<not> rects_overlap (bbox (detect_equations_in_image lib img save_crops out_dir ocr ! i))
                          (bbox (detect_equations_in_image lib img save_crops out_dir ocr ! j))"
  using assms by (simp add: detect_bbox_nth separated_no_overlap)

theorem separated_regions_disjoint_witness:
  "margin_separated block_top block_wide \<and>
   \<not> rects_overlap
      (bbox (detect_equations_in_image (stub_imaging [block_top, block_wide] flaky_recogniser)
               page False [] False ! 0))
      (bbox (detect_equations_in_image (stub_imaging [block_top, block_wide] flaky_recogniser)
               page False [] False ! 1))"
proof -
  let ?lib = "stub_imaging [block_top, block_wide] flaky_recogniser"
  have sep: "margin_separated block_top block_wide"
    by (simp add: margin_separated_def block_rects margins_eval)
  from separated_regions_disjoint[of 0 ?lib page 1 False "[]" False] sep
  show ?thesis by (simp add: side_accepted)
qed

text \<open>
  C3. When the rectangle of every candidate contour lies within the image, every region
  returned has a box \<open>(x, y, w, h)\<close> with \<open>x \<ge> 0\<close>, \<open>y \<ge> 0\<close>, \<open>w > 0\<close>, \<open>h > 0\<close>,
  \<open>x + w\<close> at most the image width and \<open>y + h\<close> at most the image height.
\<close>

theorem regions_within_image:
  assumes "\<forall>c \<in> set (candidate_contours lib img). rect_in_image img (boundingRect c)"
  shows "\<forall>r \<in> set (detect_equations_in_image lib img save_crops out_dir ocr).
           rect_in_image img (bbox r) \<and> rect_positive (bbox r)"
proof
  fix r assume "r \<in> set (detect_equations_in_image lib img save_crops out_dir ocr)"
  then have "bbox r \<in> set (map bbox (detect_equations_in_image lib img save_crops out_dir ocr))"
    by simp
  then obtain c where c: "c \<in> set (accepted_contours lib img)" "bbox r = final_bbox img c"
    unfolding detect_bboxes by auto
  with assms show "rect_in_image img (bbox r) \<and> rect_positive (bbox r)"
    by (simp add: set_accepted final_bbox_in_image)
qed

theorem regions_within_image_witness:
  "list_all (\<lambda>c. rect_in_image page (boundingRect c))
     (candidate_contours (stub_imaging [block_below, block_top] flaky_recogniser) page) \<and>
   length (detect_equations_in_image (stub_imaging [block_below, block_top] flaky_recogniser)
             page False [] False) = 2 \<and>
   list_all (\<lambda>r. rect_in_image page (bbox r) \<and> rect_positive (bbox r))
     (detect_equations_in_image (stub_imaging [block_below, block_top] flaky_recogniser)
        page False [] False)"
proof -
  let ?lib = "stub_imaging [block_below, block_top] flaky_recogniser"
  have inside: "\<forall>c \<in> set (candidate_contours ?lib page). rect_in_image page (boundingRect c)"
    by (simp add: stub_candidates block_rects rect_in_image_def page_shape)
  from regions_within_image[OF inside, of False "[]" False] inside
  show ?thesis by (simp add: list_all_iff detect_length stacked_accepted)
qed


text \<open>
  C4 (as stated, refuted). The keys need not increase strictly: the rectangles of two
  parallel diagonal strokes start at the same corner, both strokes are accepted, and
  the two regions have the same key.
\<close>

theorem reading_order_not_strict_counterexample:
  "map (reading_key page)
     (accepted_contours (stub_imaging [stroke_long, stroke_short] flaky_recogniser) page)
     = [4010, 4010] \<and>
   length (detect_equations_in_image (stub_imaging [stroke_long, stroke_short] flaky_recogniser)
             page False [] False) = 2 \<and>
   \<not> sorted_wrt (<) (map (reading_key page)
     (accepted_contours (stub_imaging [stroke_long, stroke_short] flaky_recogniser) page))"
  by (simp add: detect_length strokes_accepted reading_key_def stroke_rects page_shape)

text \<open>
  C4 (amended). The regions returned are those of the accepted contours, in an order in
  which the key \<open>y * image_width + x\<close> of the pre-margin rectangle never decreases. The
  keys increase strictly when the accepted rectangles lie within the image and no two of
  them start at the same corner.
\<close>

theorem reading_order:
  "map bbox (detect_equations_in_image lib img save_crops out_dir ocr) =
     map (final_bbox img) (accepted_contours lib img) \<and>
   sorted (map (reading_key img) (accepted_contours lib img)) \<and>
   (distinct (map top_left (accepted_contours lib img)) \<and>
    list_all (\<lambda>c. rect_in_image img (boundingRect c)) (accepted_contours lib img)
    \<longrightarrow> sorted_wrt (<) (map (reading_key img) (accepted_contours lib img)))"
proof (intro conjI impI)
  show "map bbox (detect_equations_in_image lib img save_crops out_dir ocr) =
          map (final_bbox img) (accepted_contours lib img)"
    by (rule detect_bboxes)
next
  show "sorted (map (reading_key img) (accepted_contours lib img))"
    by (rule accepted_sorted)
next
  assume h: "distinct (map top_left (accepted_contours lib img)) \<and>
             list_all (\<lambda>c. rect_in_image img (boundingRect c)) (accepted_contours lib img)"
  have "inj_on (reading_key img) (set (accepted_contours lib img))"
  proof (rule inj_onI)
    fix a b
    assume a: "a \<in> set (accepted_contours lib img)"
      and b: "b \<in> set (accepted_contours lib img)"
      and k: "reading_key img a = reading_key img b"
    from a b h have "top_left a = top_left b"
      using k by (intro key_top_left) (auto simp: set_accepted list_all_iff)
    with h a b show "a = b"
      by (auto simp: distinct_map dest: inj_onD)
  qed
  with h have "distinct (map (reading_key img) (accepted_contours lib img))"
    by (simp add: distinct_map)
  with accepted_sorted[of img lib] show
    "sorted_wrt (<) (map (reading_key img) (accepted_contours lib img))"
    by (simp add: strict_sorted_iff)
qed

theorem reading_order_witness:
  "distinct (map top_left (accepted_contours (stub_imaging [block_below, block_top] flaky_recogniser) page)) \<and>
   list_all (\<lambda>c. rect_in_image page (boundingRect c))
     (accepted_contours (stub_imaging [block_below, block_top] flaky_recogniser) page) \<and>
   map (reading_key page)
     (accepted_contours (stub_imaging [block_below, block_top] flaky_recogniser) page) = [8020, 49620] \<and>
   sorted_wrt (<) (map (reading_key page)
     (accepted_contours (stub_imaging [block_below, block_top] flaky_recogniser) page))"
proof -
  let ?lib = "stub_imaging [block_below, block_top] flaky_recogniser"
  have d: "distinct (map top_left (accepted_contours ?lib page))"
    by (simp add: stacked_accepted top_left_def block_rects)
  have i: "list_all (\<lambda>c. rect_in_image page (boundingRect c)) (accepted_contours ?lib page)"
    by (simp add: stacked_accepted block_rects rect_in_image_def page_shape)
  have k: "map (reading_key page) (accepted_contours ?lib page) = [8020, 49620]"
    by (simp add: stacked_accepted reading_key_def block_rects page_shape)
  from reading_order[of ?lib page False "[]" False] d i
  have "sorted_wrt (<) (map (reading_key page) (accepted_contours ?lib page))"
    by blast
  with d i k show ?thesis by blast
qed


text \<open>
  C5. With recognition on, every accepted contour has its region in the list returned,
  in order, with the box and the crop of that contour. Where the recogniser raises on
  the crop, the region holds the empty text and the message of the exception; where it
  returns, the region holds the stripped text and no error. A failure on one region
  changes nothing for the others.
\<close>

theorem recognition_failure_captured:
  "list_all2
     (\<lambda>r c. bbox r = final_bbox img c \<and> crop r = crop_of img c \<and>
        (case image_to_string lib (crop_of img c) of
           Inl msg \<Rightarrow> tesseract_text r = Some [] \<and> ocr_error r = Some msg
         | Inr txt \<Rightarrow> tesseract_text r = Some (strip txt) \<and> ocr_error r = None))
     (detect_equations_in_image lib img save_crops out_dir True)
     (accepted_contours lib img)"
  using detect_entries[of lib img save_crops out_dir True]
  by (rule list_all2_mono)
     (auto simp: bbox_make_entry crop_make_entry make_entry_def Let_def split: sum.splits)

theorem recognition_failure_captured_witness:
  "image_to_string (stub_imaging [block_top, block_wide] flaky_recogniser)
     (crop_of page block_top) = Inl ''engine failure'' \<and>
   map tesseract_text
     (detect_equations_in_image (stub_imaging [block_top, block_wide] flaky_recogniser)
        page False [] True) = [Some [], Some ''x = 1''] \<and>
   map ocr_error
     (detect_equations_in_image (stub_imaging [block_top, block_wide] flaky_recogniser)
        page False [] True) = [Some ''engine failure'', None] \<and>
   map bbox
     (detect_equations_in_image (stub_imaging [block_top, block_wide] flaky_recogniser)
        page False [] True) = [(17, 15, 106, 110), (196, 119, 148, 110)]"
proof -
  let ?lib = "stub_imaging [block_top, block_wide] flaky_recogniser"
  have t: "image_to_string ?lib (crop_of page block_top) = Inl ''engine failure''"
    by (simp add: stub_imaging_def flaky_recogniser_def crop_widths)
  have w: "image_to_string ?lib (crop_of page block_wide) = Inr '' x = 1 ''"
    by (simp add: stub_imaging_def flaky_recogniser_def crop_widths)
  have s: "strip '' x = 1 '' = ''x = 1''"
    by (rule strip_eval)
  from recognition_failure_captured[of page ?lib False "[]"]
  show ?thesis
    unfolding side_accepted
    by (auto simp: list_all2_Cons2 t w s final_bbox_eval)
qed

text \<open>
  C6. With recognition off, no region returned has a recognised-text key or a
  recognition-error key.
\<close>

theorem no_recognition_fields_when_disabled:
  "\<forall>r \<in> set (detect_equations_in_image lib img save_crops out_dir False).
     tesseract_text r = None \<and> ocr_error r = None"
proof
  fix r assume "r \<in> set (detect_equations_in_image lib img save_crops out_dir False)"
  then obtain idx c where "r = make_entry lib img save_crops out_dir False idx c"
    by (auto simp: detect_regions)
  then show "tesseract_text r = None \<and> ocr_error r = None"
    by (simp add: make_entry_def Let_def)
qed

theorem no_recognition_fields_when_disabled_witness:
  "length (detect_equations_in_image (stub_imaging [block_top, block_wide] flaky_recogniser)
             page True ''out'' False) = 2 \<and>
   list_all (\<lambda>r. tesseract_text r = None \<and> ocr_error r = None)
     (detect_equations_in_image (stub_imaging [block_top, block_wide] flaky_recogniser)
        page True ''out'' False)"
  using no_recognition_fields_when_disabled
          [of "stub_imaging [block_top, block_wide] flaky_recogniser" page True "''out''"]
  by (simp add: list_all_iff detect_length side_accepted)


text \<open>
  C7. A contour is accepted exactly when none of the area rule, the full-page rule and
  the minimum-size rule fires on its rectangle, and the full-page rule fires exactly
  when the width is above 95% of the image width and the height is above 95% of the
  image height: so a contour that passes the other two rules is rejected if and only if
  both of these hold. On an image of positive size a box of 96% of the width and 96% of
  the height fires the rule and is rejected; a box of 90% of the width does not fire
  it, whatever its height, and is accepted when it passes the other two rules.
\<close>

theorem full_page_rule:
  assumes "boundingRect c = (x, y, w, h)"
  shows
  "(full_page_box w h (img_h, img_w) \<longleftrightarrow>
      95 * int img_w < 100 * w \<and> 95 * int img_h < 100 * h) \<and>
   (is_equation_like c (img_h, img_w) \<longleftrightarrow>
      \<not> area_too_small w h \<and> \<not> full_page_box w h (img_h, img_w) \<and> \<not> too_thin w h) \<and>
   (\<not> area_too_small w h \<and> \<not> too_thin w h \<longrightarrow>
      (\<not> is_equation_like c (img_h, img_w) \<longleftrightarrow>
         95 * int img_w < 100 * w \<and> 95 * int img_h < 100 * h)) \<and>
   (0 < img_w \<and> 0 < img_h \<and> 100 * w = 96 * int img_w \<and> 100 * h = 96 * int img_h
      \<longrightarrow> full_page_box w h (img_h, img_w) \<and> \<not> is_equation_like c (img_h, img_w)) \<and>
   (100 * w = 90 * int img_w \<longrightarrow>
      \<not> full_page_box w h (img_h, img_w) \<and>
      (is_equation_like c (img_h, img_w) \<longleftrightarrow> \<not> area_too_small w h \<and> \<not> too_thin w h))"
proof -
  have rule: "full_page_box w h (img_h, img_w) \<longleftrightarrow>
               95 * int img_w < 100 * w \<and> 95 * int img_h < 100 * h"
    by (simp only: full_page_box_def prod.case above_95)
  have accepted: "is_equation_like c (img_h, img_w) \<longleftrightarrow>
      \<not> area_too_small w h \<and> \<not> full_page_box w h (img_h, img_w) \<and> \<not> too_thin w h"
    using assms by (rule filter_three_rules)
  show ?thesis
    unfolding accepted rule by auto
qed

theorem full_page_rule_witness:
  "boundingRect [(0, 0), (95, 95)] = (0, 0, 96, 96) \<and>
   full_page_box 96 96 (100, 100) \<and>
   \<not> is_equation_like [(0, 0), (95, 95)] (100, 100) \<and>
   boundingRect [(0, 0), (89, 99)] = (0, 0, 90, 100) \<and>
   \<not> full_page_box 90 100 (100, 100) \<and>
   is_equation_like [(0, 0), (89, 99)] (100, 100)"
proof -
  have r: "boundingRect [(0, 0), (95, 95)] = (0, 0, 96, 96)"
    and q: "boundingRect [(0, 0), (89, 99)] = (0, 0, 90, 100)"
    by (simp_all add: boundingRect_def)
  have o: "\<not> area_too_small 90 100" "\<not> too_thin 90 100"
    by (simp_all add: area_too_small_def too_thin_def)
  from full_page_rule[OF r, of 100 100] full_page_rule[OF q, of 100 100] r q o
  show ?thesis by simp
qed

text \<open>
  C8. A contour whose rectangle has area exactly 400 is not rejected by the area rule
  (whether it is accepted is then up to the full-page and the minimum-size rules); a
  contour whose rectangle has area below 400 is rejected by it.
\<close>

theorem area_rule_boundary:
  assumes "boundingRect c = (x, y, w, h)"
  shows "(w * h = 400 \<longrightarrow>
            \<not> area_too_small w h \<and>
            (is_equation_like c s \<longleftrightarrow> \<not> full_page_box w h s \<and> \<not> too_thin w h)) \<and>
         (w * h < 400 \<longrightarrow> area_too_small w h \<and> \<not> is_equation_like c s)"
  using assms
  by (simp add: is_equation_like_def area_too_small_def aspect_never)

theorem area_rule_boundary_witness:
  "boundingRect [(0, 0), (19, 19)] = (0, 0, 20, 20) \<and>
   \<not> area_too_small 20 20 \<and> is_equation_like [(0, 0), (19, 19)] (400, 400) \<and>
   boundingRect [(0, 0), (18, 19)] = (0, 0, 19, 20) \<and>
   area_too_small 19 20 \<and> \<not> is_equation_like [(0, 0), (18, 19)] (400, 400)"
proof -
  have a: "boundingRect [(0, 0), (19, 19)] = (0, 0, 20, 20)"
    and b: "boundingRect [(0, 0), (18, 19)] = (0, 0, 19, 20)"
    by (simp_all add: boundingRect_def)
  have f: "\<not> full_page_box 20 20 (400, 400)" "\<not> too_thin 20 20"
    by (simp_all add: full_page_box_def too_thin_def)
  from area_rule_boundary[OF a, of "(400, 400)"] area_rule_boundary[OF b, of "(400, 400)"]
  show ?thesis using a b f by simp
qed

text \<open>
  C9. When the image at the path cannot be loaded, the file helper raises
  \<open>FileNotFoundError\<close> with the path in its message and returns no region. When the
  image loads, the helper goes on to the detection and its outcome is the outcome of
  the detector on that image: the detector's list, unless the detector's own directory
  creation raises. So a list returned by the helper is always the detector's list for
  an image that was loaded.
\<close>

theorem load_failure_raises:
  "(imread lib path = None \<longrightarrow>
      detect_equations_from_pdf_page_image lib path save_crops out_dir ocr =
        Inl (FileNotFoundError (''Could not load image: '' @ path))) \<and>
   (\<forall>img. imread lib path = Some img \<longrightarrow>
      detect_equations_from_pdf_page_image lib path save_crops out_dir ocr =
        detect_equations_in_image_outcome lib img save_crops out_dir ocr) \<and>
   (\<forall>img. imread lib path = Some img \<and> (save_crops \<longrightarrow> makedirs lib out_dir = None) \<longrightarrow>
      detect_equations_from_pdf_page_image lib path save_crops out_dir ocr =
        Inr (detect_equations_in_image lib img save_crops out_dir ocr)) \<and>
   (\<forall>regions. detect_equations_from_pdf_page_image lib path save_crops out_dir ocr =
        Inr regions \<longrightarrow>
      (\<exists>img. imread lib path = Some img \<and>
         regions = detect_equations_in_image lib img save_crops out_dir ocr))"
proof (cases "imread lib path")
  case None
  then show ?thesis
    by (simp add: detect_equations_from_pdf_page_image_def)
next
  case (Some img)
  have "detect_equations_from_pdf_page_image lib path save_crops out_dir ocr =
          detect_equations_in_image_outcome lib img save_crops out_dir ocr"
    using Some by (simp add: detect_equations_from_pdf_page_image_def)
  then show ?thesis
    using Some
    by (auto simp: detect_equations_in_image_outcome_def ensure_dir_def
        split: option.splits if_splits)
qed

theorem load_failure_raises_witness:
  "imread (stub_imaging [block_top] flaky_recogniser) ''missing.png'' = None \<and>
   detect_equations_from_pdf_page_image (stub_imaging [block_top] flaky_recogniser)
     ''missing.png'' True ''out'' True =
     Inl (FileNotFoundError ''Could not load image: missing.png'') \<and>
   imread (stub_imaging [block_top] flaky_recogniser) ''page.png'' = Some page \<and>
   makedirs (stub_imaging [block_top] flaky_recogniser) ''out'' = None \<and>
   detect_equations_from_pdf_page_image (stub_imaging [block_top] flaky_recogniser)
     ''page.png'' True ''out'' True =
     Inr (detect_equations_in_image (stub_imaging [block_top] flaky_recogniser)
            page True ''out'' True) \<and>
   detect_equations_from_pdf_page_image (stub_imaging [block_top] flaky_recogniser)
     ''page.png'' True [] True = Inl (FileNotFoundError no_such_directory)"
proof -
  let ?lib = "stub_imaging [block_top] flaky_recogniser"
  have n: "imread ?lib ''missing.png'' = None" and y: "imread ?lib ''page.png'' = Some page"
    and m: "makedirs ?lib ''out'' = None"
    and e: "makedirs ?lib [] = Some (FileNotFoundError no_such_directory)"
    by (simp_all add: stub_imaging_def)
  have o: "detect_equations_in_image_outcome ?lib page True [] True =
             Inl (FileNotFoundError no_such_directory)"
    by (simp add: detect_equations_in_image_outcome_def ensure_dir_def e)
  from load_failure_raises[of ?lib "''missing.png''" True "''out''" True] n
  have a: "detect_equations_from_pdf_page_image ?lib ''missing.png'' True ''out'' True =
             Inl (FileNotFoundError (''Could not load image: '' @ ''missing.png''))"
    by blast
  from load_failure_raises[of ?lib "''page.png''" True "''out''" True] y m
  have b: "detect_equations_from_pdf_page_image ?lib ''page.png'' True ''out'' True =
             Inr (detect_equations_in_image ?lib page True ''out'' True)"
    by blast
  from load_failure_raises[of ?lib "''page.png''" True "[]" True] y
  have "detect_equations_from_pdf_page_image ?lib ''page.png'' True [] True =
          detect_equations_in_image_outcome ?lib page True [] True"
    by blast
  with o have c: "detect_equations_from_pdf_page_image ?lib ''page.png'' True [] True =
                    Inl (FileNotFoundError no_such_directory)"
    by simp
  from a have a': "detect_equations_from_pdf_page_image ?lib ''missing.png'' True ''out'' True =
                     Inl (FileNotFoundError ''Could not load image: missing.png'')"
    by simp
  from n y m a' b c show ?thesis by blast
qed

text \<open>
  C10. For every accepted contour whose rectangle lies within the image, the box of its
  region contains that rectangle: the margin only widens the box, and the clip to the
  image cuts nothing of the rectangle off.
\<close>

theorem final_box_contains_accepted_box:
  "list_all2
     (\<lambda>r c. rect_in_image img (boundingRect c) \<longrightarrow> rect_contains (bbox r) (boundingRect c))
     (detect_equations_in_image lib img save_crops out_dir ocr)
     (accepted_contours lib img)"
proof -
  have "list_all2 (\<lambda>r c. c \<in> set (accepted_contours lib img) \<and>
                     (\<exists>idx. r = make_entry lib img save_crops out_dir ocr idx c))
          (detect_equations_in_image lib img save_crops out_dir ocr)
          (accepted_contours lib img)"
    using detect_entries[of lib img save_crops out_dir ocr]
    by (simp add: list_all2_conv_all_nth)
  then show ?thesis
    by (rule list_all2_mono) (auto simp: bbox_make_entry set_accepted final_bbox_contains)
qed

theorem final_box_contains_accepted_box_witness:
  "rect_in_image page (boundingRect block_top) \<and>
   rect_in_image page (boundingRect block_below) \<and>
   map bbox (detect_equations_in_image (stub_imaging [block_below, block_top] flaky_recogniser)
               page False [] False) = [(17, 15, 106, 110), (17, 119, 106, 110)] \<and>
   rect_contains (17, 15, 106, 110) (boundingRect block_top) \<and>
   rect_contains (17, 119, 106, 110) (boundingRect block_below)"
proof -
  let ?lib = "stub_imaging [block_below, block_top] flaky_recogniser"
  have i: "rect_in_image page (boundingRect block_top)"
          "rect_in_image page (boundingRect block_below)"
    by (simp_all add: block_rects rect_in_image_def page_shape)
  have b: "map bbox (detect_equations_in_image ?lib page False [] False) =
             [(17, 15, 106, 110), (17, 119, 106, 110)]"
    unfolding detect_bboxes stacked_accepted by (simp add: final_bbox_eval)
  from final_box_contains_accepted_box[of page ?lib False "[]" False] i b
  show ?thesis
    unfolding stacked_accepted by (auto simp: list_all2_Cons2)
qed

end
